theory Spec2Isabelle
  imports Complex_Main
begin

section \<open>The realtime audio session hook\<close>

text \<open>
  A shallow embedding of the hook \<open>useWebRTCAudioSession\<close>: its React state and refs are the
  fields of one record, every function of the hook takes the record and returns the calls
  it made on the browser objects (a list of effects) with the updated record, and a thrown
  exception is the left summand of the result. Console output is not modelled.
\<close>

subsection \<open>Values and browser objects\<close>

text \<open>JSON values: the arguments and results of tools.\<close>

datatype jsvalue =
    JUndefined
  | JNull
  | JBool bool
  | JNum int
  | JStr string
  | JArr "jsvalue list"
  | JObj "(string \<times> jsvalue) list"

datatype error = SyntaxError | TypeError | InvalidStateError | HttpError | NetworkError | ToolError

text \<open>A registered tool: called with the parsed arguments, it returns a value or throws.\<close>

datatype tool_result = Returns jsvalue | Throws

type_synonym tool = "jsvalue \<Rightarrow> tool_result"

datatype Role = User | Assistant

text \<open>
  The type \<open>Conversation\<close> of the log entries; the fields \<open>id\<close>, \<open>text\<close> and \<open>status\<close> of
  the source are \<open>msg_id\<close>, \<open>msg_text\<close> and \<open>msg_status\<close> here.
\<close>

record Conversation =
  msg_id :: string
  role :: Role
  msg_text :: string
  timestamp :: string
  isFinal :: bool
  msg_status :: "string option"

text \<open>A \<open>Partial<Conversation>\<close> as the hook builds it: the fields it may carry.\<close>

record Partial =
  p_text :: "string option"
  p_isFinal :: "bool option"
  p_status :: "string option"

record Blob =
  blob_data :: "nat list"
  blob_type :: string

definition blob_size :: "Blob \<Rightarrow> nat" where
  "blob_size b = length (blob_data b)"

datatype readyState = Connecting | Open | Closing | Closed

datatype recordingState = Inactive | Recording | Paused

record MediaRecorder =
  rec_state :: recordingState
  mimeType :: string

text \<open>
  A message parsed from the data channel. The field \<open>arguments\<close> of the source is a JSON
  text; the model keeps what \<open>JSON.parse\<close> makes of it, \<open>None\<close> where it throws.
\<close>

record message =
  msg_type :: string
  delta :: string
  name :: string
  arguments :: "jsvalue option"
  call_id :: string

datatype outbound =
    SessionUpdate
  | ConversationItemCreate string
  | FunctionCallOutput string jsvalue
  | ResponseCreate

datatype effect =
    Send outbound
  | Fetch string Blob
  | RequestData
  | SetTimeout nat
  | DataChannelClose
  | PeerConnectionClose
  | AudioContextClose
  | TracksStop
  | ClearInterval nat
  | ClearTimeout nat
  | RecorderStop

subsection \<open>The state of the hook\<close>

text \<open>
  \<open>audioIndicatorRef\<close> holds whether the element carries the class \<open>active\<close>;
  \<open>audioStreamRef\<close> holds the \<open>enabled\<close> flags of the stream's audio tracks.
\<close>

record session =
  status :: string
  isSessionActive :: bool
  isMicMuted :: bool
  audioIndicatorRef :: "bool option"
  audioContextRef :: "unit option"
  audioStreamRef :: "bool list option"
  peerConnectionRef :: "unit option"
  dataChannelRef :: "readyState option"
  mediaRecorderRef :: "MediaRecorder option"
  msgs :: "message list"
  conversation :: "Conversation list"
  functionRegistry :: "string \<rightharpoonup> tool"
  currentVolume :: real
  analyserRef :: "unit option"
  volumeIntervalRef :: "nat option"
  timeoutRef :: "nat option"
  ephemeralUserMessageIdRef :: "string option"
  audioChunksRef :: "Blob list"

definition initial :: session where
  "initial =
     \<lparr> status = '''', isSessionActive = False, isMicMuted = False,
       audioIndicatorRef = None, audioContextRef = None, audioStreamRef = None,
       peerConnectionRef = None, dataChannelRef = None, mediaRecorderRef = None,
       msgs = [], conversation = [], functionRegistry = Map.empty,
       currentVolume = 0, analyserRef = None, volumeIntervalRef = None,
       timeoutRef = None, ephemeralUserMessageIdRef = None, audioChunksRef = [] \<rparr>"

subsection \<open>Statements that may throw\<close>

type_synonym action = "session \<Rightarrow> error + (effect list \<times> session)"

definition ok :: action where
  "ok s = Inr ([], s)"

definition seq :: "action \<Rightarrow> action \<Rightarrow> action" where
  "seq f g s =
     (case f s of
        Inl e \<Rightarrow> Inl e
      | Inr (es, s') \<Rightarrow>
          (case g s' of Inl e \<Rightarrow> Inl e | Inr (es', s'') \<Rightarrow> Inr (es @ es', s'')))"

fun seqs :: "action list \<Rightarrow> action" where
  "seqs [] = ok"
| "seqs (a # as) = seq a (seqs as)"

text \<open>\<open>if (ref.current)\<close> on a \<open>string | null\<close>: the empty string is falsy too.\<close>

definition truthy_str :: "string option \<Rightarrow> bool" where
  "truthy_str r = (case r of None \<Rightarrow> False | Some x \<Rightarrow> x \<noteq> [])"

text \<open>\<open>MediaRecorder.stop()\<close> throws on a recorder that is inactive.\<close>

definition MediaRecorder_stop :: "MediaRecorder \<Rightarrow> error + MediaRecorder" where
  "MediaRecorder_stop r =
     (if rec_state r = Inactive then Inl InvalidStateError
      else Inr (r\<lparr>rec_state := Inactive\<rparr>))"

text \<open>\<open>RTCDataChannel.send\<close> throws on a channel that is not open.\<close>

definition dataChannel_send :: "outbound \<Rightarrow> action" where
  "dataChannel_send m s =
     (case dataChannelRef s of
        None \<Rightarrow> Inl TypeError
      | Some rs \<Rightarrow> if rs = Open then Inr ([Send m], s) else Inl InvalidStateError)"

subsection \<open>stopSession\<close>

text \<open>The guarded releases of \<open>stopSession\<close>, one definition for each \<open>if\<close> block, in its order.\<close>

definition closeDataChannel :: action where
  "closeDataChannel s =
     (case dataChannelRef s of
        Some dc \<Rightarrow> Inr ([DataChannelClose], s\<lparr>dataChannelRef := None\<rparr>)
      | None \<Rightarrow> ok s)"

definition closePeerConnection :: action where
  "closePeerConnection s =
     (case peerConnectionRef s of
        Some pc \<Rightarrow> Inr ([PeerConnectionClose], s\<lparr>peerConnectionRef := None\<rparr>)
      | None \<Rightarrow> ok s)"

definition closeAudioContext :: action where
  "closeAudioContext s =
     (case audioContextRef s of
        Some ctx \<Rightarrow> Inr ([AudioContextClose], s\<lparr>audioContextRef := None\<rparr>)
      | None \<Rightarrow> ok s)"

definition stopTracks :: action where
  "stopTracks s =
     (case audioStreamRef s of
        Some tracks \<Rightarrow> Inr ([TracksStop], s\<lparr>audioStreamRef := None\<rparr>)
      | None \<Rightarrow> ok s)"

definition removeActiveClass :: action where
  "removeActiveClass s =
     (case audioIndicatorRef s of
        Some active \<Rightarrow> ok (s\<lparr>audioIndicatorRef := Some False\<rparr>)
      | None \<Rightarrow> ok s)"

definition clearVolumeInterval :: action where
  "clearVolumeInterval s =
     (case volumeIntervalRef s of
        Some n \<Rightarrow>
          (if n \<noteq> 0 then Inr ([ClearInterval n], s\<lparr>volumeIntervalRef := None\<rparr>) else ok s)
      | None \<Rightarrow> ok s)"

definition clearPendingTimeout :: action where
  "clearPendingTimeout s =
     (case timeoutRef s of
        Some n \<Rightarrow>
          (if n \<noteq> 0 then Inr ([ClearTimeout n], s\<lparr>timeoutRef := None\<rparr>) else ok s)
      | None \<Rightarrow> ok s)"

definition stopRecorder :: action where
  "stopRecorder s =
     (case mediaRecorderRef s of
        Some r \<Rightarrow>
          (if rec_state r \<noteq> Inactive
           then (case MediaRecorder_stop r of
                   Inl e \<Rightarrow> Inl e
                 | Inr r' \<Rightarrow> Inr ([RecorderStop], s\<lparr>mediaRecorderRef := None\<rparr>))
           else ok (s\<lparr>mediaRecorderRef := None\<rparr>))
      | None \<Rightarrow> ok s)"

definition stopSession :: action where
  "stopSession = seqs
     [ closeDataChannel,
       closePeerConnection,
       closeAudioContext,
       stopTracks,
       removeActiveClass,
       clearVolumeInterval,
       clearPendingTimeout,
       stopRecorder,
       (\<lambda>s. ok (s\<lparr>analyserRef := None\<rparr>)),
       (\<lambda>s. ok (s\<lparr>audioChunksRef := []\<rparr>)),
       (\<lambda>s. ok (s\<lparr>ephemeralUserMessageIdRef := None\<rparr>)),
       (\<lambda>s. ok (s\<lparr>currentVolume := 0\<rparr>)),
       (\<lambda>s. ok (s\<lparr>isSessionActive := False\<rparr>)),
       (\<lambda>s. ok (s\<lparr>status := ''Session stopped''\<rparr>)),
       (\<lambda>s. ok (s\<lparr>msgs := []\<rparr>)),
       (\<lambda>s. ok (s\<lparr>conversation := []\<rparr>)) ]"

subsection \<open>sendTextMessage\<close>

definition sendTextMessage :: "string \<Rightarrow> string \<Rightarrow> string \<Rightarrow> action" where
  "sendTextMessage uuid now txt s =
     (if dataChannelRef s = None \<or> dataChannelRef s \<noteq> Some Open then ok s
      else
        (let newMessage =
               \<lparr> msg_id = uuid, role = User, msg_text = txt, timestamp = now,
                 isFinal = True, msg_status = Some ''final'' \<rparr>
         in seqs
              [ (\<lambda>s. ok (s\<lparr>conversation := conversation s @ [newMessage]\<rparr>)),
                dataChannel_send (ConversationItemCreate txt),
                dataChannel_send ResponseCreate ] s))"

subsection \<open>The ephemeral user message\<close>

definition getOrCreateEphemeralUserId :: "string \<Rightarrow> string \<Rightarrow> session \<Rightarrow> string \<times> session" where
  "getOrCreateEphemeralUserId uuid now s =
     (let newMessage =
            \<lparr> msg_id = uuid, role = User, msg_text = '''', timestamp = now,
              isFinal = False, msg_status = Some ''speaking'' \<rparr>;
          created =
            (uuid, s\<lparr>ephemeralUserMessageIdRef := Some uuid,
                     conversation := conversation s @ [newMessage]\<rparr>)
      in case ephemeralUserMessageIdRef s of
           None \<Rightarrow> created
         | Some ephemeralId \<Rightarrow> if ephemeralId = [] then created else (ephemeralId, s))"

text \<open>The object spread \<open>{ ...msg, ...partial }\<close>.\<close>

definition spread :: "Conversation \<Rightarrow> Partial \<Rightarrow> Conversation" where
  "spread msg partial =
     msg\<lparr> msg_text := (case p_text partial of Some t \<Rightarrow> t | None \<Rightarrow> msg_text msg),
          isFinal := (case p_isFinal partial of Some b \<Rightarrow> b | None \<Rightarrow> isFinal msg),
          msg_status := (case p_status partial of Some st \<Rightarrow> Some st | None \<Rightarrow> msg_status msg) \<rparr>"

definition updateEphemeralUserMessage :: "Partial \<Rightarrow> session \<Rightarrow> session" where
  "updateEphemeralUserMessage partial s =
     (if \<not> truthy_str (ephemeralUserMessageIdRef s) then s
      else s\<lparr>conversation :=
               map (\<lambda>msg. if Some (msg_id msg) = ephemeralUserMessageIdRef s
                          then spread msg partial else msg)
                 (conversation s)\<rparr>)"

definition clearEphemeralUserMessage :: "session \<Rightarrow> session" where
  "clearEphemeralUserMessage s = s\<lparr>ephemeralUserMessageIdRef := None\<rparr>"

subsection \<open>transcribeAudioWithGroq\<close>

text \<open>
  What \<open>fetch\<close> may give back: a rejected promise, or a response with its \<open>ok\<close> flag and
  its body. The body is not JSON (\<open>response.json()\<close> rejects) or it is a JSON value.
\<close>

datatype json_body = NotJson | Json jsvalue

datatype fetch_result = NetworkFailure | HttpResponse bool json_body

text \<open>What \<open>if (v)\<close> and \<open>!v\<close> test.\<close>

fun truthy :: "jsvalue \<Rightarrow> bool" where
  "truthy JUndefined = False"
| "truthy JNull = False"
| "truthy (JBool b) = b"
| "truthy (JNum n) = (n \<noteq> 0)"
| "truthy (JStr s) = (s \<noteq> [])"
| "truthy (JArr xs) = True"
| "truthy (JObj kvs) = True"

text \<open>
  The property read \<open>data.text\<close>: it throws on \<open>null\<close> and \<open>undefined\<close>, it is the
  property of an object that has one (the last one, when the JSON text repeats the key),
  and \<open>undefined\<close> on every other value.
\<close>

fun data_text :: "jsvalue \<Rightarrow> error + jsvalue" where
  "data_text JUndefined = Inl TypeError"
| "data_text JNull = Inl TypeError"
| "data_text (JObj kvs) =
     Inr (case map_of (rev kvs) ''text'' of Some v \<Rightarrow> v | None \<Rightarrow> JUndefined)"
| "data_text (JBool b) = Inr JUndefined"
| "data_text (JNum n) = Inr JUndefined"
| "data_text (JStr s) = Inr JUndefined"
| "data_text (JArr xs) = Inr JUndefined"

type_synonym fetcher = "string \<Rightarrow> Blob \<Rightarrow> fetch_result"

fun startsWith :: "string \<Rightarrow> string \<Rightarrow> bool" where
  "startsWith s [] = True"
| "startsWith [] (c # cs) = False"
| "startsWith (x # xs) (c # cs) = (x = c \<and> startsWith xs cs)"

fun includes_str :: "string \<Rightarrow> string \<Rightarrow> bool" where
  "includes_str [] sub = (sub = [])"
| "includes_str (x # xs) sub = (startsWith (x # xs) sub \<or> includes_str xs sub)"

text \<open>The file name sent with the audio, chosen from the blob's MIME type.\<close>

definition filename_for :: "string \<Rightarrow> string" where
  "filename_for mime =
     (if includes_str mime ''mp4'' then ''audio.mp4''
      else if includes_str mime ''mp3'' then ''audio.mp3''
      else if includes_str mime ''wav'' then ''audio.wav''
      else ''audio.webm'')"

text \<open>
  The \<open>try\<close> block: the value returned or the exception thrown, and the request made.
  The value returned is a sentinel text or \<open>data.text\<close> as the response gave it, which
  need not be a string.
\<close>

definition transcribe_try :: "fetcher \<Rightarrow> Blob \<Rightarrow> (error + jsvalue) \<times> effect list" where
  "transcribe_try fetch audioBlob =
     (if blob_size audioBlob = 0 then (Inr (JStr ''No speech detected''), [])
      else
        (let filename = filename_for (blob_type audioBlob);
             request = [Fetch filename audioBlob]
         in case fetch filename audioBlob of
              NetworkFailure \<Rightarrow> (Inl NetworkError, request)
            | HttpResponse response_ok body \<Rightarrow>
                (if \<not> response_ok then (Inl HttpError, request)
                 else
                   (case body of
                      NotJson \<Rightarrow> (Inl SyntaxError, request)
                    | Json data \<Rightarrow>
                        (case data_text data of
                           Inl e \<Rightarrow> (Inl e, request)
                         | Inr v \<Rightarrow>
                             (if \<not> truthy v then (Inr (JStr ''No speech detected''), request)
                              else (Inr v, request)))))))"

text \<open>The \<open>catch\<close> block turns whatever was thrown into the failure text.\<close>

definition transcribeAudioWithGroq :: "fetcher \<Rightarrow> Blob \<Rightarrow> (error + jsvalue) \<times> effect list" where
  "transcribeAudioWithGroq fetch audioBlob =
     (case transcribe_try fetch audioBlob of
        (Inl e, es) \<Rightarrow> (Inr (JStr ''Transcription failed. Please try again.''), es)
      | (Inr v, es) \<Rightarrow> (Inr v, es))"

subsection \<open>handleDataChannelMessage\<close>

text \<open>
  \<open>functionRegistry.current\<close> is an object literal \<open>{}\<close>, so reading a property that was
  never registered falls through to \<open>Object.prototype\<close>. The table gives the inherited
  members as the call \<open>fn(args)\<close> sees them, with \<open>this\<close> undefined: \<open>toString\<close> answers
  for \<open>undefined\<close>, \<open>constructor\<close> is \<open>Object\<close> and returns its argument as an object,
  \<open>isPrototypeOf\<close> answers \<open>false\<close> for a primitive, the others convert \<open>this\<close> to an
  object and throw, and \<open>__proto__\<close> is an object that cannot be called.
\<close>

definition Object_prototype :: "string \<rightharpoonup> tool" where
  "Object_prototype n =
     (if n = ''toString'' then Some (\<lambda>args. Returns (JStr ''[object Undefined]''))
      else if n = ''constructor''
        then Some (\<lambda>args. Returns (if args = JNull \<or> args = JUndefined then JObj [] else args))
      else if n = ''isPrototypeOf''
        then Some (\<lambda>args. case args of JArr xs \<Rightarrow> Throws | JObj kvs \<Rightarrow> Throws
                                     | _ \<Rightarrow> Returns (JBool False))
      else if n \<in> set [''valueOf'', ''toLocaleString'', ''hasOwnProperty'',
                       ''propertyIsEnumerable'', ''__defineGetter__'', ''__defineSetter__'',
                       ''__lookupGetter__'', ''__lookupSetter__'', ''__proto__'']
        then Some (\<lambda>args. Throws)
      else None)"

definition registry_get :: "(string \<rightharpoonup> tool) \<Rightarrow> string \<Rightarrow> tool option" where
  "registry_get registry n =
     (case registry n of Some fn \<Rightarrow> Some fn | None \<Rightarrow> Object_prototype n)"

text \<open>\<open>dataChannelRef.current?.send(...)\<close>.\<close>

definition optional_send :: "outbound \<Rightarrow> action" where
  "optional_send m s =
     (case dataChannelRef s of None \<Rightarrow> ok s | Some rs \<Rightarrow> dataChannel_send m s)"

text \<open>The two updaters handed to \<open>setConversation\<close> by the assistant transcript events.\<close>

definition appendDelta :: "string \<Rightarrow> string \<Rightarrow> string \<Rightarrow> Conversation list \<Rightarrow> Conversation list" where
  "appendDelta uuid now d prev =
     (let newMessage =
            \<lparr> msg_id = uuid, role = Assistant, msg_text = d, timestamp = now,
              isFinal = False, msg_status = None \<rparr>
      in if prev \<noteq> [] \<and> role (prev ! (length prev - 1)) = Assistant
              \<and> \<not> isFinal (prev ! (length prev - 1))
         then prev[length prev - 1 :=
                (prev ! (length prev - 1))\<lparr>msg_text := msg_text (prev ! (length prev - 1)) @ d\<rparr>]
         else prev @ [newMessage])"

definition markLastFinal :: "Conversation list \<Rightarrow> Conversation list" where
  "markLastFinal prev =
     (if length prev = 0 then prev
      else prev[length prev - 1 := (prev ! (length prev - 1))\<lparr>isFinal := True\<rparr>])"

text \<open>The \<open>switch\<close> inside the \<open>try\<close> block.\<close>

definition dispatch :: "string \<Rightarrow> string \<Rightarrow> message \<Rightarrow> action" where
  "dispatch uuid now msg s =
     (if msg_type msg = ''input_audio_buffer.speech_started'' then
        (let s1 = snd (getOrCreateEphemeralUserId uuid now s);
             s2 = updateEphemeralUserMessage
                    \<lparr> p_text = Some ''Listening...'', p_isFinal = None,
                      p_status = Some ''speaking'' \<rparr> s1
         in ok (s2\<lparr>audioChunksRef := []\<rparr>))
      else if msg_type msg = ''input_audio_buffer.speech_stopped'' then
        (let s1 = updateEphemeralUserMessage
                    \<lparr> p_text = Some ''Processing speech...'', p_isFinal = None,
                      p_status = Some ''processing'' \<rparr> s
         in case mediaRecorderRef s1 of
              None \<Rightarrow> ok s1
            | Some r \<Rightarrow>
                if rec_state r = Recording then Inr ([RequestData, SetTimeout 300], s1)
                else ok s1)
      else if msg_type msg = ''input_audio_buffer.committed'' then ok s
      else if msg_type msg = ''conversation.item.input_audio_transcription'' then ok s
      else if msg_type msg = ''conversation.item.input_audio_transcription.completed'' then ok s
      else if msg_type msg = ''response.audio_transcript.delta'' then
        ok (s\<lparr>conversation := appendDelta uuid now (delta msg) (conversation s)\<rparr>)
      else if msg_type msg = ''response.audio_transcript.done'' then
        ok (s\<lparr>conversation := markLastFinal (conversation s)\<rparr>)
      else if msg_type msg = ''response.function_call_arguments.done'' then
        (case registry_get (functionRegistry s) (name msg) of
           None \<Rightarrow> ok s
         | Some fn \<Rightarrow>
             (case arguments msg of
                None \<Rightarrow> Inl SyntaxError
              | Some args \<Rightarrow>
                  (case fn args of
                     Throws \<Rightarrow> Inl ToolError
                   | Returns result \<Rightarrow>
                       seqs [ optional_send (FunctionCallOutput (call_id msg) result),
                              optional_send ResponseCreate ] s)))
      else ok s)"

text \<open>
  The handler: \<open>data\<close> is \<open>None\<close> when \<open>JSON.parse(event.data)\<close> throws. Whatever is thrown
  inside the \<open>try\<close> block is caught and logged; in this model nothing has been sent or
  written when that happens. The first component is the value returned.
\<close>

definition handleDataChannelMessage ::
  "string \<Rightarrow> string \<Rightarrow> message option \<Rightarrow> session \<Rightarrow> message option \<times> effect list \<times> session" where
  "handleDataChannelMessage uuid now data s =
     (case data of
        None \<Rightarrow> (None, [], s)
      | Some msg \<Rightarrow>
          (case dispatch uuid now msg s of
             Inl e \<Rightarrow> (None, [], s)
           | Inr (es, s') \<Rightarrow> (Some msg, es, s'\<lparr>msgs := msgs s' @ [msg]\<rparr>)))"

text \<open>
  The callback that \<open>speech_stopped\<close> hands to \<open>setTimeout\<close>, run when the 300 ms are over,
  on the state the hook has then. \<open>afterTranscription\<close> is what follows the
  \<open>await transcribeAudioWithGroq(audioBlob)\<close>. The \<open>text\<close> of a \<open>Conversation\<close> is a
  string: when the transcript is not one, the entry the callback writes is no value of
  that type, and the callback has no result here (\<open>None\<close>).
\<close>

definition afterTranscription :: "string \<Rightarrow> session \<Rightarrow> effect list \<times> session" where
  "afterTranscription transcript s =
     (let s1 = updateEphemeralUserMessage
                 \<lparr> p_text = Some transcript, p_isFinal = Some True,
                   p_status = Some ''final'' \<rparr> s;
          s2 = clearEphemeralUserMessage s1;
          s3 = s2\<lparr>audioChunksRef := []\<rparr>
      in if dataChannelRef s3 = Some Open
         then ([Send (ConversationItemCreate transcript), Send ResponseCreate], s3)
         else ([], s3))"

definition speechStoppedTimeout :: "fetcher \<Rightarrow> session \<Rightarrow> (effect list \<times> session) option" where
  "speechStoppedTimeout fetch s =
     (if length (audioChunksRef s) > 0 then
        (let recorderType =
               (case mediaRecorderRef s of None \<Rightarrow> [] | Some r \<Rightarrow> mimeType r);
             mime = (if recorderType = [] then ''audio/webm'' else recorderType);
             audioBlob =
               \<lparr> blob_data = concat (map blob_data (audioChunksRef s)),
                 blob_type = (if mime = ''audio/webm'' then ''audio/webm;codecs=opus'' else mime) \<rparr>;
             (result, requests) = transcribeAudioWithGroq fetch audioBlob
         in case result of
              Inl e \<Rightarrow> Some (requests, s)
            | Inr (JStr transcript) \<Rightarrow>
                (let (es, s') = afterTranscription transcript s in Some (requests @ es, s'))
            | Inr v \<Rightarrow> None)
      else Some ([], s))"

text \<open>The state an action ends in, when it does not throw.\<close>

definition result_state :: "error + (effect list \<times> session) \<Rightarrow> session option" where
  "result_state r = (case r of Inl e \<Rightarrow> None | Inr (es, s) \<Rightarrow> Some s)"

subsection \<open>startSession and the callbacks it installs\<close>

text \<open>
  The awaited calls of \<open>startSession\<close> that may reject, each with the text of what it
  throws: \<open>getUserMedia\<close>, \<open>getEphemeralToken\<close>, and the offer and answer exchange.
\<close>

datatype start_failure =
    MicrophoneDenied string
  | TokenFetchFailed string
  | NegotiationFailed string

definition mimeTypeOptions :: "string list" where
  "mimeTypeOptions =
     [''audio/mp3'', ''audio/mp4'', ''audio/wav'', ''audio/webm;codecs=opus'', ''audio/webm'']"

definition selectMimeType :: "(string \<Rightarrow> bool) \<Rightarrow> string" where
  "selectMimeType isTypeSupported =
     (case List.find isTypeSupported mimeTypeOptions of
        Some m \<Rightarrow> m
      | None \<Rightarrow> ''audio/webm'')"

text \<open>
  The \<open>try\<close> block, run to its end or to the first exception, with the state it has
  reached by then. \<open>stream\<close> is the captured stream (the \<open>enabled\<close> flags of its tracks).
  The constructor of \<open>MediaRecorder\<close> throws on a MIME type that is not supported, and
  \<open>addTrack\<close> throws when the stream has no track.
\<close>

definition startSession_try ::
  "start_failure option \<Rightarrow> bool list \<Rightarrow> (string \<Rightarrow> bool) \<Rightarrow> session \<Rightarrow> string option \<times> session" where
  "startSession_try failure stream isTypeSupported s =
     (let s1 = s\<lparr>status := ''Requesting microphone access...''\<rparr>
      in case failure of
           Some (MicrophoneDenied err) \<Rightarrow> (Some err, s1)
         | _ \<Rightarrow>
           (let s2 = s1\<lparr>audioStreamRef := Some stream, audioContextRef := Some (),
                        status := ''Fetching ephemeral token...''\<rparr>
            in case failure of
                 Some (TokenFetchFailed err) \<Rightarrow> (Some err, s2)
               | _ \<Rightarrow>
                 (let s3 = s2\<lparr>status := ''Establishing connection...'',
                              peerConnectionRef := Some (),
                              dataChannelRef := Some Connecting\<rparr>;
                      selectedMimeType = selectMimeType isTypeSupported
                  in if \<not> isTypeSupported selectedMimeType then (Some ''NotSupportedError'', s3)
                     else
                       (let s4 = s3\<lparr>mediaRecorderRef :=
                                      Some \<lparr> rec_state = Recording,
                                             mimeType = selectedMimeType \<rparr>\<rparr>
                        in if stream = [] then (Some ''TypeError'', s4)
                           else
                             (case failure of
                                Some (NegotiationFailed err) \<Rightarrow> (Some err, s4)
                              | _ \<Rightarrow>
                                (None, s4\<lparr>isSessionActive := True,
                                          status := ''Session established successfully!''\<rparr>))))))"

definition startSession :: "start_failure option \<Rightarrow> bool list \<Rightarrow> (string \<Rightarrow> bool) \<Rightarrow> action" where
  "startSession failure stream isTypeSupported s =
     (case startSession_try failure stream isTypeSupported s of
        (None, s') \<Rightarrow> ok s'
      | (Some err, s') \<Rightarrow> stopSession (s'\<lparr>status := ''Error: '' @ err\<rparr>))"

text \<open>\<open>mediaRecorder.ondataavailable\<close>.\<close>

definition ondataavailable :: "Blob \<Rightarrow> session \<Rightarrow> session" where
  "ondataavailable chunk s =
     (if blob_size chunk > 0 then s\<lparr>audioChunksRef := audioChunksRef s @ [chunk]\<rparr> else s)"

text \<open>\<open>pc.ontrack\<close>, with the id of the interval it starts, and one tick of that interval.\<close>

definition ontrack :: "nat \<Rightarrow> session \<Rightarrow> session" where
  "ontrack timerId s = s\<lparr>analyserRef := Some (), volumeIntervalRef := Some timerId\<rparr>"

definition volumeTick :: "real \<Rightarrow> session \<Rightarrow> session" where
  "volumeTick rms s = s\<lparr>currentVolume := (if analyserRef s = None then 0 else rms)\<rparr>"

text \<open>The browser moves the data channel to another ready state.\<close>

definition dataChannelState :: "readyState \<Rightarrow> session \<Rightarrow> session" where
  "dataChannelState rs s =
     (case dataChannelRef s of None \<Rightarrow> s | Some old \<Rightarrow> s\<lparr>dataChannelRef := Some rs\<rparr>)"

definition toggleMic :: "session \<Rightarrow> session" where
  "toggleMic s =
     (case audioStreamRef s of
        None \<Rightarrow> s
      | Some tracks \<Rightarrow>
          (case tracks of
             [] \<Rightarrow> s
           | enabled # rest \<Rightarrow>
               s\<lparr>audioStreamRef := Some ((\<not> enabled) # rest), isMicMuted := enabled\<rparr>))"

text \<open>
  \<open>registerFunction\<close> stores the tool as a property of the registry (the name \<open>__proto__\<close>
  would set the prototype of the object instead, and is not taken as a tool name).
\<close>

definition registerFunction :: "string \<Rightarrow> tool \<Rightarrow> session \<Rightarrow> session" where
  "registerFunction n fn s = s\<lparr>functionRegistry := (functionRegistry s)(n \<mapsto> fn)\<rparr>"

subsection \<open>Runs of the hook\<close>

text \<open>
  The states the hook can be in: from the initial state, by any message on the data
  channel, the timer of \<open>speech_stopped\<close> (also cut at its \<open>await\<close>), the operations
  handed to the user interface and the callbacks of the browser, in any order.
\<close>

inductive reachable :: "session \<Rightarrow> bool" where
  r_initial: "reachable initial"
| r_message:
    "reachable s \<Longrightarrow> handleDataChannelMessage uuid now data s = (r, es, s') \<Longrightarrow> reachable s'"
| r_timeout: "reachable s \<Longrightarrow> speechStoppedTimeout fetch s = Some (es, s') \<Longrightarrow> reachable s'"
| r_transcribed: "reachable s \<Longrightarrow> afterTranscription transcript s = (es, s') \<Longrightarrow> reachable s'"
| r_send: "reachable s \<Longrightarrow> sendTextMessage uuid now txt s = Inr (es, s') \<Longrightarrow> reachable s'"
| r_stop: "reachable s \<Longrightarrow> stopSession s = Inr (es, s') \<Longrightarrow> reachable s'"
| r_start:
    "reachable s \<Longrightarrow> startSession failure stream isTypeSupported s = Inr (es, s')
       \<Longrightarrow> reachable s'"
| r_chunk: "reachable s \<Longrightarrow> reachable (ondataavailable chunk s)"
| r_track: "reachable s \<Longrightarrow> reachable (ontrack timerId s)"
| r_volume: "reachable s \<Longrightarrow> reachable (volumeTick rms s)"
| r_channel: "reachable s \<Longrightarrow> reachable (dataChannelState rs s)"
| r_toggle: "reachable s \<Longrightarrow> reachable (toggleMic s)"
| r_register: "reachable s \<Longrightarrow> n \<noteq> ''__proto__'' \<Longrightarrow> reachable (registerFunction n fn s)"

text \<open>Messages handled one after the other, in their order of arrival.\<close>

fun handleAll :: "(string \<times> string \<times> message option) list \<Rightarrow> session \<Rightarrow> effect list \<times> session" where
  "handleAll [] s = ([], s)"
| "handleAll ((uuid, now, data) # rest) s =
     (case handleDataChannelMessage uuid now data s of
        (r, es, s') \<Rightarrow> (case handleAll rest s' of (es', s'') \<Rightarrow> (es @ es', s'')))"

text \<open>Messages of the server, to run the handler on.\<close>

definition serverEvent :: "string \<Rightarrow> message" where
  "serverEvent t = \<lparr> msg_type = t, delta = [], name = [], arguments = None, call_id = [] \<rparr>"

definition transcriptDelta :: "string \<Rightarrow> message" where
  "transcriptDelta d = (serverEvent ''response.audio_transcript.delta'')\<lparr>delta := d\<rparr>"

definition functionCall :: "string \<Rightarrow> jsvalue option \<Rightarrow> string \<Rightarrow> message" where
  "functionCall n args cid =
     (serverEvent ''response.function_call_arguments.done'')
       \<lparr>name := n, arguments := args, call_id := cid\<rparr>"

subsection \<open>Properties of the conversation log\<close>

text \<open>Every assistant entry before the last entry is final.\<close>

fun earlier_assistants_final :: "Conversation list \<Rightarrow> bool" where
  "earlier_assistants_final [] = True"
| "earlier_assistants_final [x] = True"
| "earlier_assistants_final (x # y # ys) =
     ((role x = Assistant \<longrightarrow> isFinal x) \<and> earlier_assistants_final (y # ys))"

text \<open>An assistant entry that is not final is the last entry or has a user entry next.\<close>

fun pending_assistant_last_or_before_user :: "Conversation list \<Rightarrow> bool" where
  "pending_assistant_last_or_before_user [] = True"
| "pending_assistant_last_or_before_user [x] = True"
| "pending_assistant_last_or_before_user (x # y # ys) =
     ((role x = Assistant \<and> \<not> isFinal x \<longrightarrow> role y = User)
      \<and> pending_assistant_last_or_before_user (y # ys))"

subsection \<open>States and inputs to run the hook on\<close>

text \<open>
  The state after \<open>startSession\<close> has succeeded with one microphone track, a browser that
  records \<open>audio/webm\<close> only, and the data channel open.
\<close>

definition open_session :: session where
  "open_session =
     initial\<lparr> status := ''Session established successfully!'', isSessionActive := True,
              audioContextRef := Some (), audioStreamRef := Some [True],
              peerConnectionRef := Some (), dataChannelRef := Some Open,
              mediaRecorderRef := Some \<lparr> rec_state = Recording, mimeType = ''audio/webm'' \<rparr> \<rparr>"



text \<open>The user has started to speak: the ephemeral entry is in the log.\<close>

definition listening :: session where
  "listening =
     open_session\<lparr> ephemeralUserMessageIdRef := Some ''e1'',
                   conversation :=
                     [\<lparr> msg_id = ''e1'', role = User, msg_text = ''Listening...'',
                        timestamp = ''t0'', isFinal = False, msg_status = Some ''speaking'' \<rparr>] \<rparr>"

text \<open>
  The assistant has begun to answer, and the user sends a text before the answer is done.
\<close>

definition pending_reply :: Conversation where
  "pending_reply =
     \<lparr> msg_id = ''a1'', role = Assistant, msg_text = ''Hel'', timestamp = ''t1'',
       isFinal = False, msg_status = None \<rparr>"

definition streaming :: session where
  "streaming = open_session\<lparr>conversation := [pending_reply], msgs := [transcriptDelta ''Hel'']\<rparr>"

definition interrupted :: session where
  "interrupted =
     streaming\<lparr>conversation :=
       [pending_reply,
        \<lparr> msg_id = ''u1'', role = User, msg_text = ''hi'', timestamp = ''t2'',
          isFinal = True, msg_status = Some ''final'' \<rparr>]\<rparr>"

text \<open>A tool that throws is registered, and the server calls it.\<close>

definition failing_tool_session :: session where
  "failing_tool_session = registerFunction ''getCurrentTime'' (\<lambda>args. Throws) open_session"

definition call_getCurrentTime :: message where
  "call_getCurrentTime = functionCall ''getCurrentTime'' (Some (JObj [])) ''call_1''"

text \<open>The server names \<open>toString\<close>, which no one has registered.\<close>

definition call_toString :: message where
  "call_toString = functionCall ''toString'' (Some (JObj [])) ''call_2''"

section \<open>Teardown\<close>

lemma closeDataChannel_eq:
  "closeDataChannel s =
     Inr (case dataChannelRef s of Some dc \<Rightarrow> [DataChannelClose] | None \<Rightarrow> [],
          s\<lparr>dataChannelRef := None\<rparr>)"
  by (cases "dataChannelRef s") (simp_all add: closeDataChannel_def ok_def)

lemma closePeerConnection_eq:
  "closePeerConnection s =
     Inr (case peerConnectionRef s of Some pc \<Rightarrow> [PeerConnectionClose] | None \<Rightarrow> [],
          s\<lparr>peerConnectionRef := None\<rparr>)"
  by (cases "peerConnectionRef s") (simp_all add: closePeerConnection_def ok_def)

lemma closeAudioContext_eq:
  "closeAudioContext s =
     Inr (case audioContextRef s of Some c \<Rightarrow> [AudioContextClose] | None \<Rightarrow> [],
          s\<lparr>audioContextRef := None\<rparr>)"
  by (cases "audioContextRef s") (simp_all add: closeAudioContext_def ok_def)

lemma stopTracks_eq:
  "stopTracks s =
     Inr (case audioStreamRef s of Some c \<Rightarrow> [TracksStop] | None \<Rightarrow> [],
          s\<lparr>audioStreamRef := None\<rparr>)"
  by (cases "audioStreamRef s") (simp_all add: stopTracks_def ok_def)

lemma removeActiveClass_eq:
  "removeActiveClass s =
     Inr ([], s\<lparr>audioIndicatorRef := map_option (\<lambda>a. False) (audioIndicatorRef s)\<rparr>)"
  by (cases "audioIndicatorRef s") (simp_all add: removeActiveClass_def ok_def)

lemma clearVolumeInterval_eq:
  "clearVolumeInterval s =
     Inr (case volumeIntervalRef s of
            Some n \<Rightarrow> if n \<noteq> 0 then [ClearInterval n] else []
          | None \<Rightarrow> [],
          s\<lparr>volumeIntervalRef :=
               (case volumeIntervalRef s of
                  Some n \<Rightarrow> if n \<noteq> 0 then None else Some n
                | None \<Rightarrow> None)\<rparr>)"
  by (cases "volumeIntervalRef s") (simp_all add: clearVolumeInterval_def ok_def)

lemma clearPendingTimeout_eq:
  "clearPendingTimeout s =
     Inr (case timeoutRef s of
            Some n \<Rightarrow> if n \<noteq> 0 then [ClearTimeout n] else []
          | None \<Rightarrow> [],
          s\<lparr>timeoutRef :=
               (case timeoutRef s of
                  Some n \<Rightarrow> if n \<noteq> 0 then None else Some n
                | None \<Rightarrow> None)\<rparr>)"
  by (cases "timeoutRef s") (simp_all add: clearPendingTimeout_def ok_def)

lemma stopRecorder_eq:
  "stopRecorder s =
     Inr (case mediaRecorderRef s of
            Some r \<Rightarrow> if rec_state r \<noteq> Inactive then [RecorderStop] else []
          | None \<Rightarrow> [],
          s\<lparr>mediaRecorderRef := None\<rparr>)"
  by (cases "mediaRecorderRef s")
    (simp_all add: stopRecorder_def ok_def MediaRecorder_stop_def)

lemmas release_eqs =
  closeDataChannel_eq closePeerConnection_eq closeAudioContext_eq stopTracks_eq
  removeActiveClass_eq clearVolumeInterval_eq clearPendingTimeout_eq stopRecorder_eq

text \<open>What \<open>stopSession\<close> returns, on any state: it never throws.\<close>

lemma stopSession_eq:
  "stopSession s = Inr
     ((case dataChannelRef s of Some dc \<Rightarrow> [DataChannelClose] | None \<Rightarrow> []) @
      (case peerConnectionRef s of Some pc \<Rightarrow> [PeerConnectionClose] | None \<Rightarrow> []) @
      (case audioContextRef s of Some c \<Rightarrow> [AudioContextClose] | None \<Rightarrow> []) @
      (case audioStreamRef s of Some c \<Rightarrow> [TracksStop] | None \<Rightarrow> []) @
      (case volumeIntervalRef s of
         Some n \<Rightarrow> if n \<noteq> 0 then [ClearInterval n] else []
       | None \<Rightarrow> []) @
      (case timeoutRef s of
         Some n \<Rightarrow> if n \<noteq> 0 then [ClearTimeout n] else []
       | None \<Rightarrow> []) @
      (case mediaRecorderRef s of
         Some r \<Rightarrow> if rec_state r \<noteq> Inactive then [RecorderStop] else []
       | None \<Rightarrow> []),
      s\<lparr> dataChannelRef := None, peerConnectionRef := None, audioContextRef := None,
         audioStreamRef := None,
         audioIndicatorRef := map_option (\<lambda>a. False) (audioIndicatorRef s),
         volumeIntervalRef :=
           (case volumeIntervalRef s of
              Some n \<Rightarrow> if n \<noteq> 0 then None else Some n
            | None \<Rightarrow> None),
         timeoutRef :=
           (case timeoutRef s of Some n \<Rightarrow> if n \<noteq> 0 then None else Some n | None \<Rightarrow> None),
         mediaRecorderRef := None, analyserRef := None, audioChunksRef := [],
         ephemeralUserMessageIdRef := None, currentVolume := 0, isSessionActive := False,
         status := ''Session stopped'', msgs := [], conversation := [] \<rparr>)"
  unfolding stopSession_def
  by (simp add: seq_def ok_def release_eqs)

text \<open>
  C1 (as amended). On every state \<open>stopSession\<close> returns, and in the state it leaves the
  status text is \<open>Session stopped\<close>, the session is not active, the volume is zero, the
  conversation log and the raw message log are empty, the ephemeral id is null and the
  audio chunk buffer is empty.
\<close>

theorem stopSession_resets:
  "\<exists>es s'. stopSession s = Inr (es, s') \<and> status s' = ''Session stopped''
      \<and> \<not> isSessionActive s' \<and> currentVolume s' = 0 \<and> conversation s' = []
      \<and> msgs s' = [] \<and> ephemeralUserMessageIdRef s' = None \<and> audioChunksRef s' = []"
  by (simp add: stopSession_eq)

text \<open>
  C1 as stated fails: the status text after \<open>stopSession\<close> on the initial state is
  \<open>Session stopped\<close>, which is not the initial status text.
\<close>

theorem stopSession_status_counterexample:
  "map_option status (result_state (stopSession initial)) = Some ''Session stopped''
   \<and> status initial \<noteq> ''Session stopped''"
  by (simp add: stopSession_eq result_state_def initial_def)

text \<open>\<open>stopSession\<close> does not write the mic-muted flag.\<close>

lemma stopSession_keeps_isMicMuted:
  "map_option isMicMuted (result_state (stopSession s)) = Some (isMicMuted s)"
  by (simp add: stopSession_eq result_state_def)

text \<open>
  C2. On every state \<open>stopSession\<close> returns without throwing, and a second call right
  after it returns too, makes no call on any handle and leaves the state as the first
  call left it.
\<close>

theorem stopSession_idempotent:
  "\<exists>es s'. stopSession s = Inr (es, s') \<and> stopSession s' = Inr ([], s')"
  by (cases "audioIndicatorRef s") (simp_all add: stopSession_eq split: option.split)

section \<open>Sending text\<close>

text \<open>
  C10. When the data channel is absent or not open, \<open>sendTextMessage\<close> sends nothing and
  leaves the state, the conversation log with it, unchanged.
\<close>

theorem sendTextMessage_not_open:
  "dataChannelRef s \<noteq> Some Open \<Longrightarrow> sendTextMessage uuid now txt s = Inr ([], s)"
  by (simp add: sendTextMessage_def ok_def)

theorem sendTextMessage_not_open_witness:
  "dataChannelRef (initial\<lparr>dataChannelRef := Some Closing\<rparr>) \<noteq> Some Open
   \<and> sendTextMessage ''id-1'' ''t0'' ''hi'' (initial\<lparr>dataChannelRef := Some Closing\<rparr>)
       = Inr ([], initial\<lparr>dataChannelRef := Some Closing\<rparr>)
   \<and> sendTextMessage ''id-1'' ''t0'' ''hi'' initial = Inr ([], initial)"
  using sendTextMessage_not_open [of "initial\<lparr>dataChannelRef := Some Closing\<rparr>" "''id-1''" "''t0''" "''hi''"]
    sendTextMessage_not_open [of initial "''id-1''" "''t0''" "''hi''"]
  by (simp add: initial_def)

section \<open>Transcription\<close>




section \<open>Assistant transcripts\<close>

lemma last_index: "xs \<noteq> [] \<Longrightarrow> xs ! (length xs - Suc 0) = last xs"
  by (simp add: last_conv_nth)

lemma appendDelta_pending:
  "role e = Assistant \<Longrightarrow> \<not> isFinal e \<Longrightarrow>
     appendDelta uuid now d (xs @ [e]) = xs @ [e\<lparr>msg_text := msg_text e @ d\<rparr>]"
  by (simp add: appendDelta_def)

lemma appendDelta_new:
  "prev = [] \<or> role (last prev) \<noteq> Assistant \<or> isFinal (last prev) \<Longrightarrow>
     appendDelta uuid now d prev =
       prev @ [\<lparr> msg_id = uuid, role = Assistant, msg_text = d, timestamp = now,
                 isFinal = False, msg_status = None \<rparr>]"
  by (auto simp: appendDelta_def last_index)

lemma markLastFinal_snoc: "markLastFinal (xs @ [e]) = xs @ [e\<lparr>isFinal := True\<rparr>]"
  by (simp add: markLastFinal_def)

lemma dispatch_delta:
  "msg_type msg = ''response.audio_transcript.delta'' \<Longrightarrow>
     dispatch uuid now msg s =
       Inr ([], s\<lparr>conversation := appendDelta uuid now (delta msg) (conversation s)\<rparr>)"
  by (simp add: dispatch_def ok_def)

lemma dispatch_done:
  "msg_type msg = ''response.audio_transcript.done'' \<Longrightarrow>
     dispatch uuid now msg s = Inr ([], s\<lparr>conversation := markLastFinal (conversation s)\<rparr>)"
  by (simp add: dispatch_def ok_def)

lemma handle_delta:
  "msg_type msg = ''response.audio_transcript.delta'' \<Longrightarrow>
     handleDataChannelMessage uuid now (Some msg) s =
       (Some msg, [], s\<lparr>conversation := appendDelta uuid now (delta msg) (conversation s),
                        msgs := msgs s @ [msg]\<rparr>)"
  by (simp add: handleDataChannelMessage_def dispatch_delta)

lemma handle_done:
  "msg_type msg = ''response.audio_transcript.done'' \<Longrightarrow>
     handleDataChannelMessage uuid now (Some msg) s =
       (Some msg, [], s\<lparr>conversation := markLastFinal (conversation s),
                        msgs := msgs s @ [msg]\<rparr>)"
  by (simp add: handleDataChannelMessage_def dispatch_done)

lemma event_fields:
  "msg_type (transcriptDelta d) = ''response.audio_transcript.delta''"
  "delta (transcriptDelta d) = d"
  "msg_type (serverEvent t) = t"
  by (simp_all add: transcriptDelta_def serverEvent_def)

text \<open>
  C5. A transcript delta is appended to the text of the last entry when that entry is an
  assistant entry that is not final; otherwise a new assistant entry that is not final,
  with the delta as its text, is appended to the log. So from a log that is empty or
  ends in a final entry, the deltas \<open>Hel\<close>, \<open>lo\<close>, \<open> there\<close> and a done event add exactly
  one entry, with the text \<open>Hello there\<close>, final.
\<close>

theorem assistant_transcript_deltas:
  "(msg_type msg = ''response.audio_transcript.delta'' \<and> conversation s \<noteq> []
      \<and> role (last (conversation s)) = Assistant \<and> \<not> isFinal (last (conversation s)) \<longrightarrow>
      conversation (snd (snd (handleDataChannelMessage uuid now (Some msg) s))) =
        butlast (conversation s) @
          [(last (conversation s))\<lparr>msg_text := msg_text (last (conversation s)) @ delta msg\<rparr>])
   \<and> (msg_type msg = ''response.audio_transcript.delta''
      \<and> \<not> (conversation s \<noteq> [] \<and> role (last (conversation s)) = Assistant
            \<and> \<not> isFinal (last (conversation s))) \<longrightarrow>
      conversation (snd (snd (handleDataChannelMessage uuid now (Some msg) s))) =
        conversation s @
          [\<lparr> msg_id = uuid, role = Assistant, msg_text = delta msg, timestamp = now,
             isFinal = False, msg_status = None \<rparr>])
   \<and> (conversation s = [] \<or> isFinal (last (conversation s)) \<longrightarrow>
      conversation (snd (handleAll
          [ (u1, t1, Some (transcriptDelta ''Hel'')),
            (u2, t2, Some (transcriptDelta ''lo'')),
            (u3, t3, Some (transcriptDelta '' there'')),
            (u4, t4, Some (serverEvent ''response.audio_transcript.done'')) ] s)) =
        conversation s @
          [\<lparr> msg_id = u1, role = Assistant, msg_text = ''Hello there'', timestamp = t1,
             isFinal = True, msg_status = None \<rparr>])"
proof (intro conjI impI)
  assume a: "msg_type msg = ''response.audio_transcript.delta'' \<and> conversation s \<noteq> []
      \<and> role (last (conversation s)) = Assistant \<and> \<not> isFinal (last (conversation s))"
  then have "conversation s = butlast (conversation s) @ [last (conversation s)]"
    by simp
  then have "appendDelta uuid now (delta msg) (conversation s) =
      butlast (conversation s) @
        [(last (conversation s))\<lparr>msg_text := msg_text (last (conversation s)) @ delta msg\<rparr>]"
    using a appendDelta_pending
      [of "last (conversation s)" uuid now "delta msg" "butlast (conversation s)"]
    by simp
  with a show "conversation (snd (snd (handleDataChannelMessage uuid now (Some msg) s))) =
        butlast (conversation s) @
          [(last (conversation s))\<lparr>msg_text := msg_text (last (conversation s)) @ delta msg\<rparr>]"
    by (simp add: handle_delta)
next
  assume a: "msg_type msg = ''response.audio_transcript.delta''
      \<and> \<not> (conversation s \<noteq> [] \<and> role (last (conversation s)) = Assistant
            \<and> \<not> isFinal (last (conversation s)))"
  then have "appendDelta uuid now (delta msg) (conversation s) =
      conversation s @
          [\<lparr> msg_id = uuid, role = Assistant, msg_text = delta msg, timestamp = now,
             isFinal = False, msg_status = None \<rparr>]"
    by (intro appendDelta_new) auto
  with a show "conversation (snd (snd (handleDataChannelMessage uuid now (Some msg) s))) =
        conversation s @
          [\<lparr> msg_id = uuid, role = Assistant, msg_text = delta msg, timestamp = now,
             isFinal = False, msg_status = None \<rparr>]"
    by (simp add: handle_delta)
next
  assume a: "conversation s = [] \<or> isFinal (last (conversation s))"
  then have first: "appendDelta u1 t1 ''Hel'' (conversation s) =
      conversation s @
          [\<lparr> msg_id = u1, role = Assistant, msg_text = ''Hel'', timestamp = t1,
             isFinal = False, msg_status = None \<rparr>]"
    by (intro appendDelta_new) auto
  show "conversation (snd (handleAll
          [ (u1, t1, Some (transcriptDelta ''Hel'')),
            (u2, t2, Some (transcriptDelta ''lo'')),
            (u3, t3, Some (transcriptDelta '' there'')),
            (u4, t4, Some (serverEvent ''response.audio_transcript.done'')) ] s)) =
        conversation s @
          [\<lparr> msg_id = u1, role = Assistant, msg_text = ''Hello there'', timestamp = t1,
             isFinal = True, msg_status = None \<rparr>]"
    by (simp add: handle_delta handle_done event_fields first appendDelta_pending
        markLastFinal_snoc)
qed

theorem assistant_transcript_deltas_witness:
  "conversation (snd (snd (handleDataChannelMessage ''a2'' ''t2'' (Some (transcriptDelta ''lo''))
       (open_session\<lparr>conversation :=
          [\<lparr> msg_id = ''a1'', role = Assistant, msg_text = ''Hel'', timestamp = ''t1'',
             isFinal = False, msg_status = None \<rparr>]\<rparr>)))) =
     [\<lparr> msg_id = ''a1'', role = Assistant, msg_text = ''Hello'', timestamp = ''t1'',
        isFinal = False, msg_status = None \<rparr>]
   \<and> conversation (snd (snd (handleDataChannelMessage ''a1'' ''t1'' (Some (transcriptDelta ''Hel''))
       open_session))) =
     [\<lparr> msg_id = ''a1'', role = Assistant, msg_text = ''Hel'', timestamp = ''t1'',
        isFinal = False, msg_status = None \<rparr>]
   \<and> conversation (snd (handleAll
          [ (''a1'', ''t1'', Some (transcriptDelta ''Hel'')),
            (''a2'', ''t2'', Some (transcriptDelta ''lo'')),
            (''a3'', ''t3'', Some (transcriptDelta '' there'')),
            (''a4'', ''t4'', Some (serverEvent ''response.audio_transcript.done'')) ]
          open_session)) =
     [\<lparr> msg_id = ''a1'', role = Assistant, msg_text = ''Hello there'', timestamp = ''t1'',
        isFinal = True, msg_status = None \<rparr>]"
  using
    assistant_transcript_deltas [where msg = "transcriptDelta ''lo''" and uuid = "''a2''"
      and now = "''t2''" and s = "open_session\<lparr>conversation :=
          [\<lparr> msg_id = ''a1'', role = Assistant, msg_text = ''Hel'', timestamp = ''t1'',
             isFinal = False, msg_status = None \<rparr>]\<rparr>"]
    assistant_transcript_deltas [where msg = "transcriptDelta ''Hel''" and uuid = "''a1''"
      and now = "''t1''" and s = open_session and ?u1.0 = "''a1''" and ?t1.0 = "''t1''"
      and ?u2.0 = "''a2''" and ?t2.0 = "''t2''" and ?u3.0 = "''a3''" and ?t3.0 = "''t3''"
      and ?u4.0 = "''a4''" and ?t4.0 = "''t4''"]
  by (simp add: open_session_def initial_def event_fields)

section \<open>The end of a speech turn\<close>

lemma updateEphemeralUserMessage_length:
  "length (conversation (updateEphemeralUserMessage partial s)) = length (conversation s)"
  by (simp add: updateEphemeralUserMessage_def)

lemma updateEphemeralUserMessage_nth:
  "i < length (conversation s) \<Longrightarrow>
     conversation (updateEphemeralUserMessage partial s) ! i = conversation s ! i
     \<or> conversation (updateEphemeralUserMessage partial s) ! i = spread (conversation s ! i) partial"
  by (simp add: updateEphemeralUserMessage_def)

lemma dispatch_speech_stopped:
  "msg_type msg = ''input_audio_buffer.speech_stopped'' \<Longrightarrow>
     dispatch uuid now msg s =
       Inr (case mediaRecorderRef s of
              None \<Rightarrow> []
            | Some r \<Rightarrow> if rec_state r = Recording then [RequestData, SetTimeout 300] else [],
            updateEphemeralUserMessage
              \<lparr> p_text = Some ''Processing speech...'', p_isFinal = None,
                p_status = Some ''processing'' \<rparr> s)"
  by (simp add: dispatch_def ok_def Let_def updateEphemeralUserMessage_def split: option.split)

text \<open>
  C4. Handling a speech-stopped message makes no transcription request: at most it asks
  the recorder for its data and sets the timer. It leaves every entry of the log as it
  was or with the placeholder text \<open>Processing speech...\<close> and the status \<open>processing\<close>
  (the final flag is not written). When the timer fires on a state \<open>s2\<close> whose audio
  chunk buffer is empty, the callback returns, makes no request, sends nothing and leaves
  the state unchanged.
\<close>

theorem speech_stopped_empty_buffer:
  "msg_type msg = ''input_audio_buffer.speech_stopped'' \<Longrightarrow> audioChunksRef s2 = [] \<Longrightarrow>
     set (fst (snd (handleDataChannelMessage uuid now (Some msg) s))) \<subseteq> {RequestData, SetTimeout 300}
     \<and> length (conversation (snd (snd (handleDataChannelMessage uuid now (Some msg) s))))
         = length (conversation s)
     \<and> (\<forall>i < length (conversation s).
           conversation (snd (snd (handleDataChannelMessage uuid now (Some msg) s))) ! i
             = conversation s ! i
         \<or> conversation (snd (snd (handleDataChannelMessage uuid now (Some msg) s))) ! i
             = (conversation s ! i)\<lparr>msg_text := ''Processing speech...'',
                                     msg_status := Some ''processing''\<rparr>)
     \<and> speechStoppedTimeout fetch s2 = Some ([], s2)"
proof (intro conjI allI impI)
  assume t: "msg_type msg = ''input_audio_buffer.speech_stopped''"
  let ?p = "\<lparr> p_text = Some ''Processing speech...'', p_isFinal = None,
                p_status = Some ''processing'' \<rparr>"
  have h: "snd (snd (handleDataChannelMessage uuid now (Some msg) s)) =
      (updateEphemeralUserMessage ?p s)\<lparr>msgs := msgs (updateEphemeralUserMessage ?p s) @ [msg]\<rparr>"
    using t by (simp add: handleDataChannelMessage_def dispatch_speech_stopped)
  show "set (fst (snd (handleDataChannelMessage uuid now (Some msg) s)))
      \<subseteq> {RequestData, SetTimeout 300}"
    using t
    by (auto simp add: handleDataChannelMessage_def dispatch_speech_stopped split: option.split)
  show "length (conversation (snd (snd (handleDataChannelMessage uuid now (Some msg) s))))
         = length (conversation s)"
    by (simp add: h updateEphemeralUserMessage_length)
  fix i assume "i < length (conversation s)"
  then show "conversation (snd (snd (handleDataChannelMessage uuid now (Some msg) s))) ! i
             = conversation s ! i
         \<or> conversation (snd (snd (handleDataChannelMessage uuid now (Some msg) s))) ! i
             = (conversation s ! i)\<lparr>msg_text := ''Processing speech...'',
                                     msg_status := Some ''processing''\<rparr>"
    using updateEphemeralUserMessage_nth [of i s ?p]
    by (simp add: h spread_def)
next
  assume "audioChunksRef s2 = []"
  then show "speechStoppedTimeout fetch s2 = Some ([], s2)"
    by (simp add: speechStoppedTimeout_def)
qed

theorem speech_stopped_empty_buffer_witness:
  "msg_type (serverEvent ''input_audio_buffer.speech_stopped'') = ''input_audio_buffer.speech_stopped''
   \<and> audioChunksRef listening = []
   \<and> fst (snd (handleDataChannelMessage ''u'' ''t''
        (Some (serverEvent ''input_audio_buffer.speech_stopped'')) listening))
       = [RequestData, SetTimeout 300]
   \<and> conversation (snd (snd (handleDataChannelMessage ''u'' ''t''
        (Some (serverEvent ''input_audio_buffer.speech_stopped'')) listening)))
       = [\<lparr> msg_id = ''e1'', role = User, msg_text = ''Processing speech...'',
            timestamp = ''t0'', isFinal = False, msg_status = Some ''processing'' \<rparr>]
   \<and> speechStoppedTimeout
         (\<lambda>f b. HttpResponse True (Json (JObj [(''text'', JStr ''hello'')]))) listening
       = Some ([], listening)"
  using speech_stopped_empty_buffer [where msg = "serverEvent ''input_audio_buffer.speech_stopped''"
      and ?s2.0 = listening and s = listening and uuid = "''u''" and now = "''t''"
      and fetch = "\<lambda>f b. HttpResponse True (Json (JObj [(''text'', JStr ''hello'')]))"]
  by (simp add: serverEvent_def listening_def open_session_def initial_def
      handleDataChannelMessage_def dispatch_speech_stopped updateEphemeralUserMessage_def
      truthy_str_def spread_def)

section \<open>Tool calls\<close>

lemma dispatch_function_call:
  "msg_type msg = ''response.function_call_arguments.done'' \<Longrightarrow>
     dispatch uuid now msg s =
       (case registry_get (functionRegistry s) (name msg) of
           None \<Rightarrow> ok s
         | Some fn \<Rightarrow>
             (case arguments msg of
                None \<Rightarrow> Inl SyntaxError
              | Some args \<Rightarrow>
                  (case fn args of
                     Throws \<Rightarrow> Inl ToolError
                   | Returns result \<Rightarrow>
                       seqs [ optional_send (FunctionCallOutput (call_id msg) result),
                              optional_send ResponseCreate ] s)))"
  by (simp add: dispatch_def)

lemma functionCall_fields:
  "msg_type (functionCall n args cid) = ''response.function_call_arguments.done''"
  "name (functionCall n args cid) = n"
  "arguments (functionCall n args cid) = args"
  "call_id (functionCall n args cid) = cid"
  by (simp_all add: functionCall_def serverEvent_def)

text \<open>
  A name that is neither registered nor a member of \<open>Object.prototype\<close> is dropped:
  nothing is sent and only the raw message log grows.
\<close>

lemma unregistered_tool_dropped:
  "msg_type msg = ''response.function_call_arguments.done'' \<Longrightarrow>
   functionRegistry s (name msg) = None \<Longrightarrow> Object_prototype (name msg) = None \<Longrightarrow>
     handleDataChannelMessage uuid now (Some msg) s = (Some msg, [], s\<lparr>msgs := msgs s @ [msg]\<rparr>)"
  by (simp add: handleDataChannelMessage_def dispatch_function_call registry_get_def ok_def)

text \<open>
  C7 fails on the code. With nothing registered, a call that names \<open>toString\<close> finds the
  method inherited from \<open>Object.prototype\<close>: the handler calls it and sends a function
  call output and a \<open>response.create\<close> to the server.
\<close>

theorem inherited_name_is_called:
  "functionRegistry open_session ''toString'' = None
   \<and> handleDataChannelMessage ''u'' ''t'' (Some call_toString) open_session =
      (Some call_toString,
       [Send (FunctionCallOutput ''call_2'' (JStr ''[object Undefined]'')), Send ResponseCreate],
       open_session\<lparr>msgs := [call_toString]\<rparr>)"
  by (simp add: handleDataChannelMessage_def dispatch_function_call registry_get_def
      functionCall_fields Object_prototype_def seq_def ok_def optional_send_def
      dataChannel_send_def open_session_def initial_def call_toString_def)

text \<open>
  C8 (as amended). When a registered tool throws, the exception is caught by the
  \<open>try\<close> block around the whole handler: the handler returns, nothing is sent to the
  server, and the conversation log, the active flag and the handles of the channel and of
  the connection are as they were.
\<close>

theorem tool_exception_is_swallowed:
  "msg_type msg = ''response.function_call_arguments.done'' \<Longrightarrow>
   functionRegistry s (name msg) = Some fn \<Longrightarrow> arguments msg = Some args \<Longrightarrow>
   fn args = Throws \<Longrightarrow>
     (\<exists>r s'. handleDataChannelMessage uuid now (Some msg) s = (r, [], s')
        \<and> conversation s' = conversation s \<and> isSessionActive s' = isSessionActive s
        \<and> dataChannelRef s' = dataChannelRef s \<and> peerConnectionRef s' = peerConnectionRef s)"
  by (simp add: handleDataChannelMessage_def dispatch_function_call registry_get_def)

theorem tool_exception_is_swallowed_witness:
  "msg_type call_getCurrentTime = ''response.function_call_arguments.done''
   \<and> functionRegistry failing_tool_session (name call_getCurrentTime) = Some (\<lambda>args. Throws)
   \<and> arguments call_getCurrentTime = Some (JObj [])
   \<and> snd (handleDataChannelMessage ''u'' ''t'' (Some call_getCurrentTime) failing_tool_session)
       = ([], failing_tool_session)"
  using tool_exception_is_swallowed [where msg = call_getCurrentTime
     and s = failing_tool_session and fn = "\<lambda>args. Throws" and args = "JObj []"
     and uuid = "''u''" and now = "''t''"]
  by (auto simp add: functionCall_fields registerFunction_def call_getCurrentTime_def
      failing_tool_session_def handleDataChannelMessage_def dispatch_function_call
      registry_get_def)

text \<open>
  C8 as stated fails: the tool registered under \<open>getCurrentTime\<close> throws, and no function
  call output (nothing at all) is sent to the server.
\<close>

theorem tool_exception_counterexample:
  "functionRegistry failing_tool_session ''getCurrentTime'' = Some (\<lambda>args. Throws)
   \<and> dataChannelRef failing_tool_session = Some Open
   \<and> fst (snd (handleDataChannelMessage ''u'' ''t'' (Some call_getCurrentTime)
        failing_tool_session)) = []"
  by (simp add: handleDataChannelMessage_def dispatch_function_call registry_get_def
      functionCall_fields registerFunction_def call_getCurrentTime_def
      failing_tool_session_def open_session_def initial_def)

section \<open>The raw message log\<close>

text \<open>
  C9 fails on the code. The message is appended at the end of the \<open>try\<close> block, so a
  message whose handling throws is not logged: a call of a tool that throws, and a call
  whose arguments are not JSON, leave the raw message log empty.
\<close>

theorem thrown_message_not_logged:
  "msgs failing_tool_session = []
   \<and> msgs (snd (snd (handleDataChannelMessage ''u'' ''t'' (Some call_getCurrentTime)
        failing_tool_session))) = []
   \<and> msgs (snd (snd (handleDataChannelMessage ''u'' ''t''
        (Some (functionCall ''getCurrentTime'' None ''call_3''))
        (registerFunction ''getCurrentTime'' (\<lambda>args. Returns JNull) open_session)))) = []"
  by (simp add: handleDataChannelMessage_def dispatch_function_call registry_get_def
      functionCall_fields registerFunction_def call_getCurrentTime_def
      failing_tool_session_def open_session_def initial_def)

section \<open>The order of the conversation log\<close>

lemma pending_snoc:
  "pending_assistant_last_or_before_user (xs @ [y]) =
     (pending_assistant_last_or_before_user xs
      \<and> (xs \<noteq> [] \<and> role (last xs) = Assistant \<and> \<not> isFinal (last xs) \<longrightarrow> role y = User))"
  by (induction xs rule: pending_assistant_last_or_before_user.induct) auto

lemma pending_map:
  "pending_assistant_last_or_before_user xs \<Longrightarrow> (\<And>x. role (f x) = role x) \<Longrightarrow>
   (\<And>x. isFinal x \<Longrightarrow> isFinal (f x)) \<Longrightarrow>
     pending_assistant_last_or_before_user (map f xs)"
  by (induction xs rule: pending_assistant_last_or_before_user.induct) auto

lemma pending_update_last:
  "pending_assistant_last_or_before_user xs \<Longrightarrow> xs \<noteq> [] \<Longrightarrow> role e = role (last xs) \<Longrightarrow>
     pending_assistant_last_or_before_user (xs[length xs - Suc 0 := e])"
proof (cases xs rule: rev_cases)
  case Nil
  assume "xs \<noteq> []"
  with Nil show ?thesis by simp
next
  case (snoc ys z)
  assume "pending_assistant_last_or_before_user xs" "role e = role (last xs)"
  with snoc show ?thesis by (simp add: pending_snoc)
qed

lemma pending_getOrCreate:
  "pending_assistant_last_or_before_user (conversation s) \<Longrightarrow>
     pending_assistant_last_or_before_user
       (conversation (snd (getOrCreateEphemeralUserId uuid now s)))"
  by (simp add: getOrCreateEphemeralUserId_def Let_def pending_snoc split: option.split)

lemma pending_updateEphemeral:
  "pending_assistant_last_or_before_user (conversation s) \<Longrightarrow> p_isFinal partial \<noteq> Some False \<Longrightarrow>
     pending_assistant_last_or_before_user (conversation (updateEphemeralUserMessage partial s))"
  unfolding updateEphemeralUserMessage_def
  by (cases "p_isFinal partial")
     (auto simp: spread_def intro!: pending_map)

lemma pending_appendDelta:
  assumes "pending_assistant_last_or_before_user prev"
  shows "pending_assistant_last_or_before_user (appendDelta uuid now d prev)"
proof (cases "prev \<noteq> [] \<and> role (last prev) = Assistant \<and> \<not> isFinal (last prev)")
  case True
  then have "appendDelta uuid now d prev =
      prev[length prev - Suc 0 := (last prev)\<lparr>msg_text := msg_text (last prev) @ d\<rparr>]"
    by (simp add: appendDelta_def last_index)
  with assms True show ?thesis
    by (simp add: pending_update_last)
next
  case False
  then have "appendDelta uuid now d prev =
       prev @ [\<lparr> msg_id = uuid, role = Assistant, msg_text = d, timestamp = now,
                 isFinal = False, msg_status = None \<rparr>]"
    by (intro appendDelta_new) auto
  with assms False show ?thesis
    by (auto simp: pending_snoc)
qed

lemma pending_markLastFinal:
  "pending_assistant_last_or_before_user prev \<Longrightarrow>
     pending_assistant_last_or_before_user (markLastFinal prev)"
  by (auto simp: markLastFinal_def last_index intro!: pending_update_last)

lemma optional_send_state: "optional_send m s = Inr (es, s') \<Longrightarrow> s' = s"
  by (auto simp: optional_send_def dataChannel_send_def ok_def split: option.splits if_splits)

lemma dataChannel_send_state: "dataChannel_send m s = Inr (es, s') \<Longrightarrow> s' = s"
  by (auto simp: dataChannel_send_def split: option.splits if_splits)

lemma seq_Inr:
  "seq f g s = Inr (es, s'') \<Longrightarrow>
     \<exists>es1 s' es2. f s = Inr (es1, s') \<and> g s' = Inr (es2, s'') \<and> es = es1 @ es2"
  by (auto simp: seq_def split: sum.splits)

lemma function_call_state:
  "seq (optional_send a) (seq (optional_send b) ok) s = Inr (es, s') \<Longrightarrow> s' = s"
  by (auto simp: ok_def dest!: seq_Inr optional_send_state)

lemma dispatch_conversation:
  assumes "dispatch uuid now msg s = Inr (es, s')"
    and "pending_assistant_last_or_before_user (conversation s)"
  shows "pending_assistant_last_or_before_user (conversation s')"
proof -
  consider (started) "msg_type msg = ''input_audio_buffer.speech_started''"
    | (stopped) "msg_type msg = ''input_audio_buffer.speech_stopped''"
    | (delta) "msg_type msg = ''response.audio_transcript.delta''"
    | (finished) "msg_type msg = ''response.audio_transcript.done''"
    | (call) "msg_type msg = ''response.function_call_arguments.done''"
    | (other) "msg_type msg \<noteq> ''input_audio_buffer.speech_started''"
        "msg_type msg \<noteq> ''input_audio_buffer.speech_stopped''"
        "msg_type msg \<noteq> ''response.audio_transcript.delta''"
        "msg_type msg \<noteq> ''response.audio_transcript.done''"
        "msg_type msg \<noteq> ''response.function_call_arguments.done''"
    by blast
  then show ?thesis
  proof cases
    case started
    with assms(1) have "s' = (updateEphemeralUserMessage
        \<lparr> p_text = Some ''Listening...'', p_isFinal = None, p_status = Some ''speaking'' \<rparr>
        (snd (getOrCreateEphemeralUserId uuid now s)))\<lparr>audioChunksRef := []\<rparr>"
      by (simp add: dispatch_def ok_def Let_def)
    then show ?thesis
      using assms(2) by (simp add: pending_updateEphemeral pending_getOrCreate)
  next
    case stopped
    with assms(1) have "s' = updateEphemeralUserMessage
        \<lparr> p_text = Some ''Processing speech...'', p_isFinal = None,
          p_status = Some ''processing'' \<rparr> s"
      by (simp add: dispatch_speech_stopped)
    then show ?thesis
      using assms(2) by (simp add: pending_updateEphemeral)
  next
    case delta
    with assms show ?thesis by (auto simp: dispatch_delta pending_appendDelta)
  next
    case finished
    with assms show ?thesis by (auto simp: dispatch_done pending_markLastFinal)
  next
    case call
    with assms(1) have "s' = s"
      by (auto simp: dispatch_function_call ok_def
          split: option.splits tool_result.splits dest: function_call_state)
    with assms(2) show ?thesis by simp
  next
    case other
    with assms(1) have "s' = s"
      by (auto simp add: dispatch_def ok_def split: if_splits)
    with assms(2) show ?thesis by simp
  qed
qed

lemma handle_conversation:
  "handleDataChannelMessage uuid now data s = (r, es, s') \<Longrightarrow>
   pending_assistant_last_or_before_user (conversation s) \<Longrightarrow>
     pending_assistant_last_or_before_user (conversation s')"
  by (auto simp: handleDataChannelMessage_def split: option.splits sum.splits
      dest: dispatch_conversation)

lemma afterTranscription_conversation:
  "afterTranscription transcript s = (es, s') \<Longrightarrow>
   pending_assistant_last_or_before_user (conversation s) \<Longrightarrow>
     pending_assistant_last_or_before_user (conversation s')"
  using pending_updateEphemeral
    [of s "\<lparr> p_text = Some transcript, p_isFinal = Some True, p_status = Some ''final'' \<rparr>"]
  by (auto simp: afterTranscription_def Let_def clearEphemeralUserMessage_def split: if_splits)

lemma speechStoppedTimeout_conversation:
  "speechStoppedTimeout fetch s = Some (es, s') \<Longrightarrow>
   pending_assistant_last_or_before_user (conversation s) \<Longrightarrow>
     pending_assistant_last_or_before_user (conversation s')"
  by (auto simp: speechStoppedTimeout_def Let_def
      split: if_splits prod.splits sum.splits jsvalue.splits
      dest: afterTranscription_conversation)

lemma sendTextMessage_conversation:
  "sendTextMessage uuid now txt s = Inr (es, s') \<Longrightarrow>
   pending_assistant_last_or_before_user (conversation s) \<Longrightarrow>
     pending_assistant_last_or_before_user (conversation s')"
  by (auto simp: sendTextMessage_def ok_def Let_def seq_def dataChannel_send_def pending_snoc
      split: if_splits sum.splits option.splits)

lemma stopSession_conversation: "stopSession s = Inr (es, s') \<Longrightarrow> conversation s' = []"
  by (auto simp: stopSession_eq)

lemma startSession_try_conversation:
  "conversation (snd (startSession_try failure stream isTypeSupported s)) = conversation s"
  by (simp add: startSession_try_def Let_def split: option.split start_failure.split)

lemma startSession_conversation:
  "startSession failure stream isTypeSupported s = Inr (es, s') \<Longrightarrow>
   pending_assistant_last_or_before_user (conversation s) \<Longrightarrow>
     pending_assistant_last_or_before_user (conversation s')"
  using startSession_try_conversation [of failure stream isTypeSupported s]
  by (auto simp: startSession_def ok_def split: prod.splits option.splits
      dest: stopSession_conversation)

text \<open>The states of the interrupted answer are reachable.\<close>

lemma open_session_reachable: "reachable open_session"
proof -
  have started: "startSession None [True] (\<lambda>m. m = ''audio/webm'') initial =
      Inr ([], open_session\<lparr>dataChannelRef := Some Connecting\<rparr>)"
    by (simp add: startSession_def startSession_try_def selectMimeType_def mimeTypeOptions_def
        ok_def open_session_def initial_def)
  have opened: "dataChannelState Open (open_session\<lparr>dataChannelRef := Some Connecting\<rparr>) =
      open_session"
    by (simp add: dataChannelState_def open_session_def initial_def)
  have "reachable (open_session\<lparr>dataChannelRef := Some Connecting\<rparr>)"
    using r_initial started by (rule r_start)
  then have "reachable (dataChannelState Open (open_session\<lparr>dataChannelRef := Some Connecting\<rparr>))"
    by (rule r_channel)
  with opened show ?thesis by simp
qed

lemma streaming_reachable: "reachable streaming"
proof -
  have "handleDataChannelMessage ''a1'' ''t1'' (Some (transcriptDelta ''Hel'')) open_session =
      (Some (transcriptDelta ''Hel''), [], streaming)"
    by (simp add: handle_delta event_fields appendDelta_def streaming_def pending_reply_def
        open_session_def initial_def)
  with open_session_reachable show ?thesis by (rule r_message)
qed

lemma interrupted_reachable: "reachable interrupted"
proof -
  have "sendTextMessage ''u1'' ''t2'' ''hi'' streaming =
      Inr ([Send (ConversationItemCreate ''hi''), Send ResponseCreate], interrupted)"
    by (simp add: sendTextMessage_def seq_def ok_def dataChannel_send_def interrupted_def
        streaming_def open_session_def initial_def)
  with streaming_reachable show ?thesis by (rule r_send)
qed

text \<open>
  C6 (as amended). In every reachable state, an assistant entry that is not final is the
  last entry of the log or is directly followed by a user entry: of two assistant entries
  in a row the first is final.
\<close>

theorem pending_assistant_invariant:
  "reachable s \<Longrightarrow> pending_assistant_last_or_before_user (conversation s)"
proof (induction rule: reachable.induct)
  case r_initial
  show ?case by (simp add: initial_def)
next
  case (r_message s uuid now data r es s')
  then show ?case by (blast dest: handle_conversation)
next
  case (r_timeout s fetch es s')
  then show ?case by (blast dest: speechStoppedTimeout_conversation)
next
  case (r_transcribed s transcript es s')
  then show ?case by (blast dest: afterTranscription_conversation)
next
  case (r_send s uuid now body es s')
  then show ?case by (blast dest: sendTextMessage_conversation)
next
  case (r_stop s es s')
  then show ?case by (simp add: stopSession_conversation)
next
  case (r_start s failure stream isTypeSupported es s')
  then show ?case by (blast dest: startSession_conversation)
next
  case (r_chunk s chunk)
  then show ?case by (simp add: ondataavailable_def)
next
  case (r_track s timerId)
  then show ?case by (simp add: ontrack_def)
next
  case (r_volume s rms)
  then show ?case by (simp add: volumeTick_def)
next
  case (r_channel s rs)
  then show ?case by (simp add: dataChannelState_def split: option.split)
next
  case (r_toggle s)
  then show ?case by (simp add: toggleMic_def split: option.split list.split)
next
  case (r_register s n fn)
  then show ?case by (simp add: registerFunction_def)
qed

theorem pending_assistant_invariant_witness:
  "reachable interrupted
   \<and> pending_assistant_last_or_before_user (conversation interrupted)
   \<and> map role (conversation interrupted) = [Assistant, User]
   \<and> map isFinal (conversation interrupted) = [False, True]"
  using pending_assistant_invariant [of interrupted] interrupted_reachable
  by (simp add: interrupted_def pending_reply_def)

text \<open>
  C6 as stated fails: the session is established, the assistant has streamed \<open>Hel\<close>, and
  the user sends the text \<open>hi\<close>. The user entry is appended behind the assistant entry,
  which is then neither final nor the last entry.
\<close>

theorem earlier_assistants_final_counterexample:
  "reachable interrupted \<and> \<not> earlier_assistants_final (conversation interrupted)"
  using interrupted_reachable by (simp add: interrupted_def pending_reply_def)

section \<open>What the handler logs\<close>

lemma dispatch_msgs: "dispatch uuid now msg s = Inr (es, s') \<Longrightarrow> msgs s' = msgs s"
  by (auto simp: dispatch_def ok_def Let_def updateEphemeralUserMessage_def
      getOrCreateEphemeralUserId_def
      split: if_splits option.splits tool_result.splits dest: function_call_state)

text \<open>A message whose handling does not throw is appended to the raw message log.\<close>

lemma handled_message_logged:
  "dispatch uuid now msg s = Inr (es, s') \<Longrightarrow>
     msgs (snd (snd (handleDataChannelMessage uuid now (Some msg) s))) = msgs s @ [msg]"
  by (simp add: handleDataChannelMessage_def dispatch_msgs)

end
